theory Spec2Isabelle
  imports Main
begin

section \<open>Python values used by both entry points\<close>

text \<open>
  The repository is glue around external services (Pinecone, OpenAI, LlamaIndex,
  semantic-router, Chainlit). The embedding keeps the repository's own control flow and
  records every log record, every UI operation and every call into an external library as
  an event, in program order. What an external call returns, and whether it raises, is
  supplied by a \<open>world\<close> record.

  A Python \<open>str\<close> is a \<open>string\<close>; a non-ASCII code point is written as its UTF-8
  bytes. \<open>os.getenv(k)\<close> is a lookup in a map, taken after \<open>load_dotenv()\<close> has run.
\<close>

type_synonym env = "string \<rightharpoonup> string"

text \<open>Exceptions derived from \<open>Exception\<close>; the string is \<open>str(e)\<close>.\<close>

datatype exn = ValueError string | ExternalError string

fun str_of_exn :: "exn \<Rightarrow> string" where
  "str_of_exn (ValueError m) = m"
| "str_of_exn (ExternalError m) = m"

text \<open>Truthiness of an \<open>Optional[str]\<close>: \<open>None\<close> and the empty string are falsy.\<close>

definition truthy :: "string option \<Rightarrow> bool" where
  "truthy v = (case v of None \<Rightarrow> False | Some s \<Rightarrow> s \<noteq> [])"

text \<open>How an f-string renders a length and an \<open>int\<close>.\<close>

definition decimal_digits :: string where
  "decimal_digits = ''0123456789''"

text \<open>The digit for \<open>d < 10\<close>; the callers pass nothing else.\<close>

definition digit_char :: "nat \<Rightarrow> char" where
  "digit_char d = hd (drop d decimal_digits)"

fun str_of_nat :: "nat \<Rightarrow> string" where
  "str_of_nat n =
     (if n < 10 then [digit_char n] else str_of_nat (n div 10) @ [digit_char (n mod 10)])"

declare str_of_nat.simps [simp del]

definition str_of_int :: "int \<Rightarrow> string" where
  "str_of_int i = (if i < 0 then CHR ''-'' # str_of_nat (nat (- i)) else str_of_nat (nat i))"

subsection \<open>The builtin \<open>int\<close> on a string\<close>

text \<open>
  \<open>int(s)\<close> in base 10, as CPython's \<open>PyLong_FromString\<close> reads an ASCII string: leading
  and trailing whitespace is skipped, one sign is allowed, the digits may be separated by
  single underscores (none leading, none trailing, none doubled), and nothing else may
  follow. \<open>None\<close> is the \<open>ValueError\<close>. The interpreter's limit on the number of digits
  (\<open>sys.get_int_max_str_digits()\<close>, 0 for no limit, consulted only above 640 digits) is a
  parameter.
\<close>

definition is_space :: "char \<Rightarrow> bool" where
  "is_space c = (c = CHR '' '' \<or> c = CHR 0x09 \<or> c = CHR 0x0A \<or> c = CHR 0x0B
                 \<or> c = CHR 0x0C \<or> c = CHR 0x0D)"

fun position :: "'a \<Rightarrow> 'a list \<Rightarrow> nat option" where
  "position x [] = None"
| "position x (y # ys) = (if x = y then Some 0 else map_option Suc (position x ys))"

definition digit_val :: "char \<Rightarrow> nat option" where
  "digit_val c = position c decimal_digits"

text \<open>
  The scan over digits and underscores: \<open>prev_us\<close> says the previous character was an
  underscore, \<open>acc\<close> is the value so far and \<open>n\<close> the number of digits seen. The result is
  the value, the number of digits and the unread rest.
\<close>

fun scan_digits :: "string \<Rightarrow> bool \<Rightarrow> nat \<Rightarrow> nat \<Rightarrow> (nat \<times> nat \<times> string) option" where
  "scan_digits [] prev_us acc n = (if prev_us then None else Some (acc, n, []))"
| "scan_digits (c # cs) prev_us acc n =
     (if c = CHR ''_'' then (if prev_us then None else scan_digits cs True acc n)
      else case digit_val c of
             Some d \<Rightarrow> scan_digits cs False (10 * acc + d) (Suc n)
           | None \<Rightarrow> (if prev_us then None else Some (acc, n, c # cs)))"

definition has_sign :: "string \<Rightarrow> bool" where
  "has_sign s = (case s of [] \<Rightarrow> False | c # _ \<Rightarrow> (c = CHR ''+'' \<or> c = CHR ''-''))"

definition is_negative :: "string \<Rightarrow> bool" where
  "is_negative s = (case s of [] \<Rightarrow> False | c # _ \<Rightarrow> (c = CHR ''-''))"

definition finish_int :: "nat \<Rightarrow> bool \<Rightarrow> nat \<times> nat \<times> string \<Rightarrow> int option" where
  "finish_int limit negative scanned =
     (case scanned of (v, n, rest) \<Rightarrow>
        (if n = 0 then None
         else if 640 < n \<and> 0 < limit \<and> limit < n then None
         else if dropWhile is_space rest \<noteq> [] then None
         else Some (if negative then - int v else int v)))"

definition py_int :: "nat \<Rightarrow> string \<Rightarrow> int option" where
  "py_int limit s =
     (let s1 = dropWhile is_space s;
          s2 = (if has_sign s1 then tl s1 else s1)
      in if s2 = [] then None
         else if hd s2 = CHR ''_'' then None
         else (case scan_digits s2 False 0 0 of
                 None \<Rightarrow> None
               | Some scanned \<Rightarrow> finish_int limit (is_negative s1) scanned))"

section \<open>Events\<close>

datatype level = INFO | WARNING | ERROR

text \<open>A UI element and a \<open>cl.Message\<close> as the handlers construct them.\<close>

datatype element = Text string string | Image string string

record message =
  content :: string
  elements :: "element list"
  author :: "string option"

text \<open>
  Every call into an external library the two entry points make. The arguments are the
  ones the source passes.
\<close>

datatype call =
    LoadData string
  | PineconeClient string
  | ListIndexes
  | DeleteIndex string
  | CreateIndex string int "string option" "string option"
  | GetIndex "string option"
  | OpenAIEmbeddingNew string int string
  | SentenceSplitterNew nat nat
  | PineconeVectorStoreNew
  | StorageContextNew
  | EmbedChunks string int "string list"
  | UpsertChunks string nat
  | OpenAIEncoderNew string string
  | SemanticRouterNew "string list"
  | FromVectorStore
  | AsQueryEngine nat
  | QueryEngineToolNew string
  | OpenAINew string "string option"
  | ReActAgentFromTools
  | RouterClassify string
  | StreamChat string

datatype event =
    Log level string
  | Call call
  | Send message
  | StreamToken string
  | Update string

text \<open>
  The calls that leave the machine: the Pinecone control and data plane, the OpenAI
  embedding and completion endpoints. The router's constructor embeds the utterances of
  its routes, and classifying a message embeds the message.
\<close>

fun is_remote :: "call \<Rightarrow> bool" where
  "is_remote ListIndexes = True"
| "is_remote (DeleteIndex _) = True"
| "is_remote (CreateIndex _ _ _ _) = True"
| "is_remote (GetIndex _) = True"
| "is_remote (EmbedChunks _ _ _) = True"
| "is_remote (UpsertChunks _ _) = True"
| "is_remote (SemanticRouterNew _) = True"
| "is_remote (RouterClassify _) = True"
| "is_remote (StreamChat _) = True"
| "is_remote _ = False"

fun calls :: "event list \<Rightarrow> call list" where
  "calls [] = []"
| "calls (Call c # es) = c # calls es"
| "calls (_ # es) = calls es"

definition remote_calls :: "event list \<Rightarrow> call list" where
  "remote_calls es = filter is_remote (calls es)"

fun sends :: "event list \<Rightarrow> message list" where
  "sends [] = []"
| "sends (Send m # es) = m # sends es"
| "sends (_ # es) = sends es"

text \<open>The messages sent under an author's name; the others have the default author.\<close>

definition authored :: "event list \<Rightarrow> message list" where
  "authored es = filter (\<lambda>m. author m \<noteq> None) (sends es)"

fun logs :: "event list \<Rightarrow> (level \<times> string) list" where
  "logs [] = []"
| "logs (Log l m # es) = (l, m) # logs es"
| "logs (_ # es) = logs es"

section \<open>The external world\<close>

text \<open>
  \<open>fault c\<close> is the exception the external call \<open>c\<close> raises, if any. The other fields
  are what the external libraries compute: whether a path exists, the documents of a
  file, the sentence splitter, the embedding model, the router's classification of a
  message, and the agent's response generator (its fragments, then the exception that
  ends the iteration early, if any). The components of an embedding vector are not
  looked at and are written as integers. \<open>max_str_digits\<close> is the interpreter's limit
  for \<open>int\<close>.
\<close>

record world =
  max_str_digits :: nat
  fault :: "call \<Rightarrow> exn option"
  path_exists :: "string \<Rightarrow> bool"
  load_data :: "string \<Rightarrow> string list"
  sentence_split :: "nat \<Rightarrow> nat \<Rightarrow> string list \<Rightarrow> string list"
  embed :: "string \<Rightarrow> int \<Rightarrow> string \<Rightarrow> int list"
  classify :: "string \<Rightarrow> string option"
  response_gen :: "string \<Rightarrow> string list \<times> exn option"

text \<open>
  The remote service: the indexes of the Pinecone project by name. Upserted records have
  fresh ids, so an upsert appends.
\<close>

record index =
  dimension :: int
  metric :: string
  cloud :: "string option"
  region :: "string option"
  vectors :: "(string \<times> int list) list"

type_synonym pinecone = "string \<rightharpoonup> index"

section \<open>Running a handler\<close>

text \<open>
  A run is the outcome so far, the events so far and the state the code acts on. \<open>Normal\<close>
  means no exception is pending; \<open>Raised e\<close> that \<open>e\<close> has left the function;
  \<open>Exit n\<close> that \<open>sys.exit(n)\<close> was called.
\<close>

datatype outcome = Normal | Raised exn | Exit int

record 's run =
  outcome :: outcome
  trace :: "event list"
  state :: 's

text \<open>The exit status of the interpreter: an uncaught exception gives status 1.\<close>

fun exit_status :: "outcome \<Rightarrow> int" where
  "exit_status Normal = 0"
| "exit_status (Raised _) = 1"
| "exit_status (Exit n) = n"

definition log :: "level \<Rightarrow> string \<Rightarrow> 's run \<Rightarrow> 's run" where
  "log l m r = r\<lparr>trace := trace r @ [Log l m]\<rparr>"

text \<open>An external call is recorded when it is attempted, and then raises or returns.\<close>

definition ext :: "world \<Rightarrow> call \<Rightarrow> 's run \<Rightarrow> 's run" where
  "ext w c r =
     (let r' = r\<lparr>trace := trace r @ [Call c]\<rparr>
      in case fault w c of Some e \<Rightarrow> r'\<lparr>outcome := Raised e\<rparr> | None \<Rightarrow> r')"

text \<open>Statements in sequence: the first exception or exit ends the sequence.\<close>

fun steps :: "('s run \<Rightarrow> 's run) list \<Rightarrow> 's run \<Rightarrow> 's run" where
  "steps [] r = r"
| "steps (s # ss) r = (case outcome r of Normal \<Rightarrow> steps ss (s r) | _ \<Rightarrow> r)"

section \<open>The ingestion script (data_ingest/ingest.py)\<close>

subsection \<open>The Pinecone client\<close>

text \<open>
  What the script asks of the service, after the transport fault of the world: deleting
  removes the index of that name and fails when there is none, creating adds an empty
  index with the given dimension, the cosine metric and the serverless specification and
  fails when the name is taken, \<open>pc.Index(name)\<close> fails when there is no such index, and
  an upsert adds its records to the index.
\<close>

definition delete_index :: "world \<Rightarrow> string \<Rightarrow> pinecone run \<Rightarrow> pinecone run" where
  "delete_index w n r =
     (let r' = ext w (DeleteIndex n) r
      in case outcome r' of
           Normal \<Rightarrow>
             (case state r' n of
                None \<Rightarrow> r'\<lparr>outcome := Raised (ExternalError ''NOT_FOUND'')\<rparr>
              | Some _ \<Rightarrow> r'\<lparr>state := (state r')(n := None)\<rparr>)
         | _ \<Rightarrow> r')"

definition create_index ::
  "world \<Rightarrow> string \<Rightarrow> int \<Rightarrow> string option \<Rightarrow> string option \<Rightarrow> pinecone run \<Rightarrow> pinecone run" where
  "create_index w n d cl rg r =
     (let r' = ext w (CreateIndex n d cl rg) r
      in case outcome r' of
           Normal \<Rightarrow>
             (case state r' n of
                Some _ \<Rightarrow> r'\<lparr>outcome := Raised (ExternalError ''ALREADY_EXISTS'')\<rparr>
              | None \<Rightarrow>
                  r'\<lparr>state := (state r')(n \<mapsto>
                     \<lparr>dimension = d, metric = ''cosine'', cloud = cl, region = rg,
                      vectors = []\<rparr>)\<rparr>)
         | _ \<Rightarrow> r')"

definition get_index :: "world \<Rightarrow> string \<Rightarrow> pinecone run \<Rightarrow> pinecone run" where
  "get_index w n r =
     (let r' = ext w (GetIndex (Some n)) r
      in case outcome r' of
           Normal \<Rightarrow>
             (case state r' n of
                None \<Rightarrow> r'\<lparr>outcome := Raised (ExternalError ''NOT_FOUND'')\<rparr>
              | Some _ \<Rightarrow> r')
         | _ \<Rightarrow> r')"

definition upsert ::
  "world \<Rightarrow> string \<Rightarrow> (string \<times> int list) list \<Rightarrow> pinecone run \<Rightarrow> pinecone run" where
  "upsert w n recs r =
     (let r' = ext w (UpsertChunks n (length recs)) r
      in case outcome r' of
           Normal \<Rightarrow>
             (case state r' n of
                None \<Rightarrow> r'\<lparr>outcome := Raised (ExternalError ''NOT_FOUND'')\<rparr>
              | Some ix \<Rightarrow> r'\<lparr>state := (state r')(n \<mapsto> ix\<lparr>vectors := vectors ix @ recs\<rparr>)\<rparr>)
         | _ \<Rightarrow> r')"

subsection \<open>Configuration\<close>

definition dim_message :: string where
  "dim_message =
     ''EMBEDDING_DIM environment variable must be a valid integer. Defaulting to 1024.''"

text \<open>\<open>int(os.getenv("EMBEDDING_DIM", "1024"))\<close> under its \<open>try\<close>: the value and the log.\<close>

definition ingest_embedding_dim :: "world \<Rightarrow> env \<Rightarrow> int \<times> event list" where
  "ingest_embedding_dim w env =
     (case py_int (max_str_digits w)
             (case env ''EMBEDDING_DIM'' of None \<Rightarrow> ''1024'' | Some v \<Rightarrow> v) of
        Some d \<Rightarrow> (d, [])
      | None \<Rightarrow> (1024, [Log ERROR dim_message]))"

definition get_model :: "env \<Rightarrow> string" where
  "get_model env =
     (case env ''EMBEDDING_MODEL'' of None \<Rightarrow> ''text-embedding-3-small'' | Some m \<Rightarrow> m)"

definition default_input_file :: string where
  "default_input_file = ''./data_ingest/paul_allen_data.txt''"

definition ingest_config_message :: string where
  "ingest_config_message =
     ''PINECONE_INDEX_NAME, PINECONE_API_KEY, or OPENAI_API_KEY is not set in the .env file.''"

subsection \<open>The pipeline\<close>

definition check_input_file :: "world \<Rightarrow> string \<Rightarrow> pinecone run \<Rightarrow> pinecone run" where
  "check_input_file w input_file r =
     (if \<not> path_exists w input_file
      then (log ERROR (''Input file not found at: '' @ input_file) r)\<lparr>outcome := Exit 1\<rparr>
      else r)"

definition load_documents :: "world \<Rightarrow> string \<Rightarrow> pinecone run \<Rightarrow> pinecone run" where
  "load_documents w input_file =
     steps
       [log INFO (''Loading data from '' @ [CHR 0x27] @ input_file @ [CHR 0x27] @ ''...''),
        ext w (LoadData input_file),
        log INFO (''Successfully loaded '' @ str_of_nat (length (load_data w input_file))
                  @ '' document(s).'')]"

definition delete_if_exists :: "world \<Rightarrow> string \<Rightarrow> pinecone run \<Rightarrow> pinecone run" where
  "delete_if_exists w n r =
     (if state r n \<noteq> None
      then steps
             [log WARNING (''Pinecone index '' @ [CHR 0x27] @ n @ [CHR 0x27]
                           @ '' already exists. Deleting it.''),
              delete_index w n] r
      else r)"

definition setup_index ::
  "world \<Rightarrow> string \<Rightarrow> string \<Rightarrow> int \<Rightarrow> string option \<Rightarrow> string option
     \<Rightarrow> pinecone run \<Rightarrow> pinecone run" where
  "setup_index w api_key n d cl rg =
     steps
       [log INFO ''Initializing Pinecone client...'',
        ext w (PineconeClient api_key),
        ext w ListIndexes,
        delete_if_exists w n,
        log INFO (''Creating new Pinecone index '' @ [CHR 0x27] @ n @ [CHR 0x27] @ '' with ''
                  @ str_of_int d @ '' dimensions...''),
        create_index w n d cl rg,
        get_index w n,
        log INFO ''Pinecone index created successfully.'']"

text \<open>
  \<open>VectorStoreIndex.from_documents\<close>: the node parser of \<open>Settings\<close> splits the
  documents, the embedding model embeds every chunk, the vector store upserts them.
\<close>

definition chunks_of :: "world \<Rightarrow> string \<Rightarrow> string list" where
  "chunks_of w input_file = sentence_split w 256 20 (load_data w input_file)"

definition records_of :: "world \<Rightarrow> string \<Rightarrow> int \<Rightarrow> string \<Rightarrow> (string \<times> int list) list" where
  "records_of w model d input_file =
     map (\<lambda>c. (c, embed w model d c)) (chunks_of w input_file)"

definition from_documents ::
  "world \<Rightarrow> string \<Rightarrow> string \<Rightarrow> int \<Rightarrow> string \<Rightarrow> pinecone run \<Rightarrow> pinecone run" where
  "from_documents w n model d input_file =
     steps
       [ext w (EmbedChunks model d (chunks_of w input_file)),
        upsert w n (records_of w model d input_file)]"

definition ingest ::
  "world \<Rightarrow> string \<Rightarrow> string \<Rightarrow> string \<Rightarrow> string option \<Rightarrow> string option \<Rightarrow> string
     \<Rightarrow> int \<Rightarrow> string \<Rightarrow> pinecone run \<Rightarrow> pinecone run" where
  "ingest w n api_key openai_key cl rg model d input_file =
     steps
       [log INFO (''Configuration loaded. Using Pinecone index: '' @ [CHR 0x27] @ n @ [CHR 0x27]),
        check_input_file w input_file,
        load_documents w input_file,
        setup_index w api_key n d cl rg,
        ext w (OpenAIEmbeddingNew model d openai_key),
        ext w (SentenceSplitterNew 256 20),
        ext w PineconeVectorStoreNew,
        ext w StorageContextNew,
        log INFO ''Creating VectorStoreIndex and ingesting documents into Pinecone...'',
        from_documents w n model d input_file,
        log INFO ''--- INGESTION COMPLETE ---'',
        log INFO (''Data from '' @ [CHR 0x27] @ input_file @ [CHR 0x27]
                  @ '' is now indexed in Pinecone index '' @ [CHR 0x27] @ n @ [CHR 0x27] @ ''.'')]"

text \<open>
  \<open>main()\<close>: \<open>arg\<close> is the value of \<open>--input-file\<close> when given, \<open>pc\<close> the remote
  service before the run. The three names under \<open>the\<close> have passed the \<open>all([...])\<close>
  check, so they are not \<open>None\<close>.
\<close>

definition main :: "world \<Rightarrow> env \<Rightarrow> string option \<Rightarrow> pinecone \<Rightarrow> pinecone run" where
  "main w env arg pc =
     (let input_file = (case arg of None \<Rightarrow> default_input_file | Some f \<Rightarrow> f);
          pinecone_index_name = env ''PINECONE_INDEX_NAME'';
          pinecone_api_key = env ''PINECONE_API_KEY'';
          pinecone_region = env ''PINECONE_REGION'';
          pinecone_cloud = env ''PINECONE_CLOUD'';
          openai_api_key = env ''OPENAI_API_KEY'';
          embedding_model = get_model env;
          embedding_dim = fst (ingest_embedding_dim w env);
          r0 = \<lparr>outcome = Normal, trace = snd (ingest_embedding_dim w env), state = pc\<rparr>
      in if \<not> (truthy pinecone_index_name \<and> truthy pinecone_api_key \<and> truthy openai_api_key)
         then r0\<lparr>outcome := Raised (ValueError ingest_config_message)\<rparr>
         else ingest w (the pinecone_index_name) (the pinecone_api_key) (the openai_api_key)
                pinecone_cloud pinecone_region embedding_model embedding_dim input_file r0)"

section \<open>The route table (router.py)\<close>

record route =
  name :: string
  utterances :: "string list"

definition paul_allen_route :: route where
  "paul_allen_route =
     \<lparr>name = ''paul_allen_questions'',
      utterances =
        [''who is paul allen?'',
         ''tell me about paul allen's life'',
         ''what is paul allen known for?'',
         ''what was his role at microsoft?'',
         ''tell me about his business ventures and investments'',
         ''what is vulcan inc?'',
         ''did he have any patents?'',
         ''what's the story behind Traf-O-Data?'',
         ''describe paul allen's philanthropy'',
         ''what are the Allen Institutes?'',
         ''did he sign the giving pledge?'',
         ''tell me about his contributions to science and research'',
         ''what sports teams did he own?'',
         ''tell me about his yachts, Octopus and Tatoosh'',
         ''was he a musician?'',
         ''did he write a book?'',
         ''when did paul allen die?'',
         ''what was his involvement with SpaceShipOne?'',
         ''tell me about the Stratolaunch project'',
         ''was the bell from HMS Hood successfully retrieved?'']\<rparr>"

definition greetings_route :: route where
  "greetings_route =
     \<lparr>name = ''greetings'',
      utterances = [''hello'', ''hi'', ''hey'', ''good morning'', ''good afternoon'',
                    ''how are you today?'']\<rparr>"

definition farewells_route :: route where
  "farewells_route =
     \<lparr>name = ''farewells'',
      utterances = [''goodbye'', ''bye'', ''see you later'', ''take care'',
                    ''have a good one'']\<rparr>"

definition gratitude_route :: route where
  "gratitude_route =
     \<lparr>name = ''gratitude'',
      utterances = [''thank you'', ''thanks'', ''appreciate it'', ''thanks for your help'',
                    ''you're welcome'']\<rparr>"

definition allowed_routes :: "route list" where
  "allowed_routes = [paul_allen_route, greetings_route, farewells_route, gratitude_route]"

section \<open>The chat application (app.py)\<close>

subsection \<open>Module initialisation\<close>

text \<open>
  The module's globals after import. \<open>g_router_layer\<close> says whether the name
  \<open>router_layer\<close> is bound, which is what \<open>'router_layer' in globals()\<close> tests.
\<close>

record app_globals =
  g_pinecone_index_name :: "string option"
  g_openai_api_key :: "string option"
  g_embedding_model :: string
  g_embedding_dim :: int
  g_router_layer :: bool

text \<open>
  \<open>int(os.getenv("EMBEDDING_DIM", 1024))\<close> under its \<open>try\<close>: here the default is the
  integer 1024 itself, which \<open>int\<close> returns unchanged.
\<close>

definition app_embedding_dim :: "world \<Rightarrow> env \<Rightarrow> int \<times> event list" where
  "app_embedding_dim w env =
     (case env ''EMBEDDING_DIM'' of
        None \<Rightarrow> (1024, [])
      | Some v \<Rightarrow>
          (case py_int (max_str_digits w) v of
             Some d \<Rightarrow> (d, [])
           | None \<Rightarrow> (1024, [Log ERROR dim_message])))"

definition bind_router_layer :: "app_globals run \<Rightarrow> app_globals run" where
  "bind_router_layer r = r\<lparr>state := (state r)\<lparr>g_router_layer := True\<rparr>\<rparr>"




subsection \<open>The session\<close>

datatype agent = ReActAgent "string list" string

record session =
  author_name :: "string option"
  agent :: "agent option"

definition send :: "message \<Rightarrow> 's run \<Rightarrow> 's run" where
  "send m r = r\<lparr>trace := trace r @ [Send m]\<rparr>"

text \<open>\<open>cl.Message(content=c)\<close>: no elements, the default author.\<close>

definition plain :: "string \<Rightarrow> message" where
  "plain c = \<lparr>content = c, elements = [], author = None\<rparr>"

definition the_author :: string where
  "the_author = ''Paul Allen AI Agent''"

definition header_message :: message where
  "header_message =
     \<lparr>content = [],
      elements = [Text ''Paul Allen Archives''
                    ([CHR 0xF0, CHR 0x9F, CHR 0x92, CHR 0xA1]
                     @ '' From Microsoft to Megayachts: Ask Anything'')],
      author = Some the_author\<rparr>"

definition image_message :: message where
  "image_message =
     \<lparr>content = [], elements = [Image ''image1'' ''./public/Paul_Allen.jpg''],
      author = Some the_author\<rparr>"

definition welcome_message :: message where
  "welcome_message =
     \<lparr>content = ''Hello! Please ask me anything about Microsoft's co-founder - Paul Allen, his life, career, or interests. I am here to help!'',
      elements = [], author = Some the_author\<rparr>"

definition pinecone_key_message :: string where
  "pinecone_key_message = ''PINECONE_API_KEY or PINECONE_ENVIRONMENT not found in .env file.''"

definition the_agent :: agent where
  "the_agent = ReActAgent [''paul_allen_knowledge_base''] ''gpt-4o''"

definition set_agent :: "session run \<Rightarrow> session run" where
  "set_agent r = r\<lparr>state := (state r)\<lparr>agent := Some the_agent\<rparr>\<rparr>"

text \<open>The body of the \<open>try\<close> in \<open>on_chat_start\<close>, after its first log record.\<close>

definition connect :: "world \<Rightarrow> app_globals \<Rightarrow> env \<Rightarrow> session run \<Rightarrow> session run" where
  "connect w g env r =
     (let pinecone_api_key = env ''PINECONE_API_KEY'';
          pinecone_region = env ''PINECONE_REGION''
      in if \<not> truthy pinecone_api_key \<or> \<not> truthy pinecone_region
         then r\<lparr>outcome := Raised (ValueError pinecone_key_message)\<rparr>
         else steps
                [ext w (PineconeClient (the pinecone_api_key)),
                 ext w (GetIndex (g_pinecone_index_name g)),
                 ext w PineconeVectorStoreNew,
                 ext w FromVectorStore,
                 ext w (AsQueryEngine 3),
                 ext w (QueryEngineToolNew ''paul_allen_knowledge_base''),
                 ext w (OpenAINew ''gpt-4o'' (g_openai_api_key g)),
                 ext w ReActAgentFromTools,
                 set_agent,
                 log INFO ''LlamaIndex agent setup complete.''] r)"

text \<open>The \<open>try\<close> and its \<open>except Exception\<close>.\<close>

definition setup_agent :: "world \<Rightarrow> app_globals \<Rightarrow> env \<Rightarrow> session run \<Rightarrow> session run" where
  "setup_agent w g env r =
     (let r' = steps
                 [log INFO ''Connecting to Pinecone and setting up the agent...'',
                  connect w g env] r
      in case outcome r' of
           Raised e \<Rightarrow>
             steps
               [log ERROR (''Error during chat start: '' @ str_of_exn e),
                send (plain (''Sorry, an error occurred during setup: '' @ str_of_exn e))]
               (r'\<lparr>outcome := Normal\<rparr>)
         | _ \<Rightarrow> r')"

definition on_chat_start :: "world \<Rightarrow> app_globals \<Rightarrow> env \<Rightarrow> session \<Rightarrow> session run" where
  "on_chat_start w g env s =
     steps
       [send header_message,
        send image_message,
        send welcome_message,
        setup_agent w g env]
       \<lparr>outcome = Normal, trace = [], state = s\<lparr>author_name := Some the_author\<rparr>\<rparr>"

subsection \<open>Handling a message\<close>

definition allowed_route_names :: "string list" where
  "allowed_route_names = [''paul_allen_questions'', ''greetings'', ''farewells'', ''gratitude'']"

text \<open>\<open>route_result.name not in allowed_route_names\<close>; the name is \<open>None\<close> on no match.\<close>

definition not_allowed :: "string option \<Rightarrow> bool" where
  "not_allowed n = (case n of None \<Rightarrow> True | Some x \<Rightarrow> x \<notin> set allowed_route_names)"

definition router_message :: string where
  "router_message = ''Semantic Router is not initialized. Please check server logs.''"

definition refusal_message :: string where
  "refusal_message = ''I apologize, but I am an AI agent designed specifically to answer questions about Paul Allen. I cannot assist with other topics.''"

definition unavailable_message :: string where
  "unavailable_message = ''Sorry, the agent is not available.''"

text \<open>The \<open>for token in response_stream.response_gen\<close> loop.\<close>

fun stream_loop :: "string list \<Rightarrow> string \<Rightarrow> 's run \<Rightarrow> string \<times> 's run" where
  "stream_loop [] response_text r = (response_text, r)"
| "stream_loop (token # rest) response_text r =
     stream_loop rest (response_text @ token) (r\<lparr>trace := trace r @ [StreamToken token]\<rparr>)"

text \<open>
  From \<open>agent.stream_chat\<close> to \<open>msg.update()\<close>. When the generator raises, the loop is
  left with the exception and the update is not reached.
\<close>

definition respond :: "world \<Rightarrow> string \<Rightarrow> session run \<Rightarrow> session run" where
  "respond w text r =
     (let r1 = ext w (StreamChat text) r
      in case outcome r1 of
           Normal \<Rightarrow>
             (let r2 = send (plain []) r1;
                  looped = stream_loop (fst (response_gen w text)) [] r2
              in case snd (response_gen w text) of
                   Some e \<Rightarrow> (snd looped)\<lparr>outcome := Raised e\<rparr>
                 | None \<Rightarrow> (snd looped)\<lparr>trace := trace (snd looped) @ [Update (fst looped)]\<rparr>)
         | _ \<Rightarrow> r1)"

definition on_message :: "world \<Rightarrow> app_globals \<Rightarrow> string \<Rightarrow> session \<Rightarrow> session run" where
  "on_message w g text s =
     (let r0 = \<lparr>outcome = Normal, trace = [], state = s\<rparr>
      in if \<not> g_router_layer g then send (plain router_message) r0
         else (let r1 = ext w (RouterClassify text) r0
               in case outcome r1 of
                    Normal \<Rightarrow>
                      (if not_allowed (classify w text) then send (plain refusal_message) r1
                       else (case agent (state r1) of
                               None \<Rightarrow> send (plain unavailable_message) r1
                             | Some a \<Rightarrow> respond w text r1))
                  | _ \<Rightarrow> r1))"

subsection \<open>A session: the start handler, then the message handler on each message\<close>



subsection \<open>What the user interface shows\<close>

text \<open>
  The contents of the displayed messages, oldest first. Sending adds a message; a
  streamed fragment is appended to the message being streamed and an update replaces its
  content; in \<open>on_message\<close> that is the message sent last.
\<close>

fun display :: "event list \<Rightarrow> string list \<Rightarrow> string list" where
  "display [] ui = ui"
| "display (Send m # es) ui = display es (ui @ [content m])"
| "display (StreamToken t # es) ui =
     display es (if ui = [] then ui else butlast ui @ [last ui @ t])"
| "display (Update c # es) ui = display es (if ui = [] then ui else butlast ui @ [c])"
| "display (_ # es) ui = display es ui"

section \<open>Concrete inputs\<close>

text \<open>
  A world in which a file \<open>notes.txt\<close> exists, the splitter keeps the first chunk
  of each document, Pinecone rejects an index specification without a
  region, the router knows three messages, and the agent's generator breaks off on one
  query.
\<close>

definition test_fault :: "call \<Rightarrow> exn option" where
  "test_fault c =
     (case c of
        CreateIndex n d cl rg \<Rightarrow>
          (if rg = None then Some (ExternalError ''region is required'') else None)
      | _ \<Rightarrow> None)"

definition test_classify :: "string \<Rightarrow> string option" where
  "test_classify t =
     (if t = ''hello'' then Some ''greetings''
      else if t = ''who is paul allen?'' then Some ''paul_allen_questions''
      else if t = ''did he write a book?'' then Some ''paul_allen_questions''
      else None)"

definition test_response_gen :: "string \<Rightarrow> string list \<times> exn option" where
  "test_response_gen t =
     (if t = ''did he write a book?''
      then ([''Yes, ''], Some (ExternalError ''Connection error.''))
      else ([''Paul Allen '', ''co-founded '', ''Microsoft.''], None))"

definition test_world :: world where
  "test_world =
     \<lparr>max_str_digits = 4300,
      fault = test_fault,
      path_exists = (\<lambda>p. p = ''notes.txt''),
      load_data = (\<lambda>p. [''Paul Allen co-founded Microsoft.'']),
      sentence_split = (\<lambda>sz overlap docs. map (take sz) docs),
      embed = (\<lambda>model d t. [d, int (length t)]),
      classify = test_classify,
      response_gen = test_response_gen\<rparr>"

definition test_env :: env where
  "test_env =
     [''PINECONE_INDEX_NAME'' \<mapsto> ''paul-allen'',
      ''PINECONE_API_KEY'' \<mapsto> ''pc-key'',
      ''PINECONE_REGION'' \<mapsto> ''us-east-1'',
      ''PINECONE_CLOUD'' \<mapsto> ''aws'',
      ''OPENAI_API_KEY'' \<mapsto> ''sk-key'',
      ''EMBEDDING_DIM'' \<mapsto> ''8'']"



definition test_globals :: app_globals where
  "test_globals =
     \<lparr>g_pinecone_index_name = Some ''paul-allen'',
      g_openai_api_key = Some ''sk-key'',
      g_embedding_model = ''text-embedding-3-small'',
      g_embedding_dim = 8,
      g_router_layer = True\<rparr>"

definition old_index :: index where
  "old_index =
     \<lparr>dimension = 1024, metric = ''cosine'', cloud = Some ''aws'', region = Some ''us-east-1'',
      vectors = [(''old chunk'', [1, 2]), (''older chunk'', [3, 4])]\<rparr>"

section \<open>Basic facts about runs\<close>

lemma calls_append [simp]: "calls (xs @ ys) = calls xs @ calls ys"
  by (induction xs rule: calls.induct) simp_all

lemma sends_append [simp]: "sends (xs @ ys) = sends xs @ sends ys"
  by (induction xs rule: sends.induct) simp_all

lemma logs_append [simp]: "logs (xs @ ys) = logs xs @ logs ys"
  by (induction xs rule: logs.induct) simp_all

lemma sends_tokens [simp]: "sends (map StreamToken toks) = []"
  by (induction toks) simp_all

lemma calls_tokens [simp]: "calls (map StreamToken toks) = []"
  by (induction toks) simp_all


lemma authored_simps [simp]:
  "authored [] = []"
  "authored (Log l m # es) = authored es"
  "authored (Call c # es) = authored es"
  "authored (StreamToken t # es) = authored es"
  "authored (Update u # es) = authored es"
  "authored (Send (plain x) # es) = authored es"
  by (simp_all add: authored_def plain_def)

lemma authored_tokens [simp]: "authored (map StreamToken toks) = []"
  by (simp add: authored_def)

lemma log_simps [simp]:
  "outcome (log l m r) = outcome r"
  "state (log l m r) = state r"
  "trace (log l m r) = trace r @ [Log l m]"
  by (simp_all add: log_def)

lemma send_simps [simp]:
  "outcome (send m r) = outcome r"
  "state (send m r) = state r"
  "trace (send m r) = trace r @ [Send m]"
  by (simp_all add: send_def)

lemma ext_simps [simp]:
  "state (ext w c r) = state r"
  "trace (ext w c r) = trace r @ [Call c]"
  by (simp_all add: ext_def Let_def split: option.split)

lemma outcome_ext:
  "outcome (ext w c r) = (case fault w c of Some e \<Rightarrow> Raised e | None \<Rightarrow> outcome r)"
  by (simp add: ext_def Let_def split: option.split)

lemma set_agent_simps [simp]:
  "outcome (set_agent r) = outcome r"
  "trace (set_agent r) = trace r"
  by (simp_all add: set_agent_def)

lemma bind_router_layer_simps [simp]:
  "outcome (bind_router_layer r) = outcome r"
  "trace (bind_router_layer r) = trace r"
  "g_embedding_dim (state (bind_router_layer r)) = g_embedding_dim (state r)"
  by (simp_all add: bind_router_layer_def)

subsection \<open>Statements in sequence\<close>

lemma steps_go: "outcome r = Normal \<Longrightarrow> steps (s # ss) r = steps ss (s r)"
  by simp

lemma steps_stop: "outcome r \<noteq> Normal \<Longrightarrow> steps ss r = r"
  by (cases ss; cases "outcome r") simp_all

lemma steps_Normal:
  assumes "outcome (steps (s # ss) r) = Normal"
  shows "outcome r = Normal" and "outcome (s r) = Normal"
    and "steps (s # ss) r = steps ss (s r)" and "outcome (steps ss (s r)) = Normal"
proof -
  show r: "outcome r = Normal"
    using assms by (cases "outcome r") simp_all
  then show eq: "steps (s # ss) r = steps ss (s r)" by simp
  then show n: "outcome (steps ss (s r)) = Normal" using assms by simp
  show "outcome (s r) = Normal"
  proof (rule ccontr)
    assume "outcome (s r) \<noteq> Normal"
    then have "steps ss (s r) = s r" by (rule steps_stop)
    with n \<open>outcome (s r) \<noteq> Normal\<close> show False by simp
  qed
qed

lemma steps_state:
  assumes "\<And>s r. s \<in> set ss \<Longrightarrow> f (state (s r)) = f (state r)"
  shows "f (state (steps ss r)) = f (state r)"
  using assms
proof (induction ss arbitrary: r)
  case Nil
  then show ?case by simp
next
  case (Cons s ss)
  show ?case
  proof (cases "outcome r")
    case Normal
    have "f (state (steps ss (s r))) = f (state (s r))"
      using Cons.prems by (intro Cons.IH) auto
    then show ?thesis using Normal Cons.prems by simp
  qed simp_all
qed


lemma steps_outcome:
  assumes "\<And>s r. s \<in> set ss \<Longrightarrow> \<forall>n. outcome r \<noteq> Exit n \<Longrightarrow> \<forall>n. outcome (s r) \<noteq> Exit n"
    and "\<forall>n. outcome r \<noteq> Exit n"
  shows "\<forall>n. outcome (steps ss r) \<noteq> Exit n"
  using assms
proof (induction ss arbitrary: r)
  case Nil
  then show ?case by simp
next
  case (Cons s ss)
  show ?case
  proof (cases "outcome r")
    case Normal
    have "\<forall>n. outcome (s r) \<noteq> Exit n"
      using Cons.prems by simp
    then have "\<forall>n. outcome (steps ss (s r)) \<noteq> Exit n"
      using Cons.prems(1) by (intro Cons.IH) auto
    then show ?thesis using Normal by simp
  qed (use Cons.prems in simp_all)
qed

lemma ext_plain: "\<exists>t. trace (ext w c r) = trace r @ t \<and> authored t = []"
  by simp

lemma log_plain: "\<exists>t. trace (log l m r) = trace r @ t \<and> authored t = []"
  by simp

lemma ext_no_exit: "\<forall>n. outcome r \<noteq> Exit n \<Longrightarrow> \<forall>n. outcome (ext w c r) \<noteq> Exit n"
  by (simp add: outcome_ext split: option.split)

subsection \<open>Evaluating the configuration\<close>

lemmas py_int_eval = py_int_def is_space_def has_sign_def is_negative_def finish_int_def
  digit_val_def decimal_digits_def

lemma calls_dim_ingest [simp]: "calls (snd (ingest_embedding_dim w env)) = []"
  by (simp add: ingest_embedding_dim_def split: option.split)

lemma calls_dim_app [simp]: "calls (snd (app_embedding_dim w env)) = []"
  by (simp add: app_embedding_dim_def split: option.split)

lemma test_dim: "ingest_embedding_dim test_world test_env = (8, [])"
  by (simp add: ingest_embedding_dim_def test_world_def test_env_def py_int_eval)


section \<open>The route table and the handler's list of names\<close>

text \<open>
  C10. The names the message handler accepts are the names of the routes in the route
  table: the list in \<open>on_message\<close> is the list of the names of \<open>allowed_routes\<close>, in the
  same order, so each name names a route and each route's name is in the list; the names
  are pairwise different.
\<close>

theorem route_names_agree:
  "map name allowed_routes = allowed_route_names
   \<and> set allowed_route_names = name ` set allowed_routes
   \<and> distinct (map name allowed_routes)"
  by (simp add: allowed_routes_def allowed_route_names_def paul_allen_route_def
      greetings_route_def farewells_route_def gratitude_route_def)

section \<open>The ingestion script\<close>

subsection \<open>A missing input file\<close>

text \<open>
  C7. When the input file does not exist, the script ends with a nonzero exit status
  (the \<open>ValueError\<close> of the configuration check or \<open>sys.exit(1)\<close>), it has made no call
  into an external library, so no remote call, and the remote service is as it was.
\<close>

theorem missing_input_file_exits:
  assumes "\<not> path_exists w (case arg of None \<Rightarrow> default_input_file | Some f \<Rightarrow> f)"
  shows "exit_status (outcome (main w env arg pc)) \<noteq> 0
         \<and> calls (trace (main w env arg pc)) = []
         \<and> remote_calls (trace (main w env arg pc)) = []
         \<and> state (main w env arg pc) = pc"
  using assms
  by (simp add: main_def Let_def ingest_def check_input_file_def remote_calls_def)

text \<open>C7 at a path that does not exist, with a complete configuration.\<close>

theorem missing_input_file_exits_witness:
  "\<not> path_exists test_world ''absent.txt''
   \<and> outcome (main test_world test_env (Some ''absent.txt'') Map.empty) = Exit 1
   \<and> exit_status (outcome (main test_world test_env (Some ''absent.txt'') Map.empty)) \<noteq> 0
   \<and> remote_calls (trace (main test_world test_env (Some ''absent.txt'') Map.empty)) = []"
proof -
  have h: "\<not> path_exists test_world
             (case Some ''absent.txt'' of None \<Rightarrow> default_input_file | Some f \<Rightarrow> f)"
    by (simp add: test_world_def)
  have o: "outcome (main test_world test_env (Some ''absent.txt'') Map.empty) = Exit 1"
    by (simp add: main_def Let_def ingest_def check_input_file_def test_world_def
        test_env_def truthy_def)
  show ?thesis
    using h o missing_input_file_exits [OF h, of test_env Map.empty] by simp
qed

subsection \<open>The remote state after a completed run\<close>

lemma state_check_input_file [simp]: "state (check_input_file w f r) = state r"
  by (simp add: check_input_file_def)

lemma state_load_documents [simp]: "state (load_documents w f r) = state r"
  unfolding load_documents_def by (rule steps_state [where f = "\<lambda>x. x"]) auto

lemma delete_if_exists_state:
  assumes "outcome (delete_if_exists w n r) = Normal"
  shows "state (delete_if_exists w n r) = (state r)(n := None)"
proof (cases "state r n")
  case None
  then show ?thesis by (simp add: delete_if_exists_def fun_upd_idem)
next
  case (Some ix)
  then have eq: "delete_if_exists w n r =
      steps [log WARNING (''Pinecone index '' @ [CHR 0x27] @ n @ [CHR 0x27]
                           @ '' already exists. Deleting it.''),
              delete_index w n] r"
    by (simp only: delete_if_exists_def) simp
  have r: "outcome r = Normal"
    using assms steps_Normal(1) unfolding eq by blast
  show ?thesis
    using assms Some r unfolding eq
    by (simp add: delete_index_def Let_def outcome_ext split: option.splits outcome.splits)
qed

lemma create_index_state:
  assumes "outcome (create_index w n d cl rg r) = Normal"
  shows "state (create_index w n d cl rg r) =
           (state r)(n \<mapsto> \<lparr>dimension = d, metric = ''cosine'', cloud = cl, region = rg,
                            vectors = []\<rparr>)"
  using assms
  by (simp add: create_index_def Let_def outcome_ext split: option.splits outcome.splits)

lemma get_index_state [simp]: "state (get_index w n r) = state r"
  by (simp add: get_index_def Let_def split: option.splits outcome.splits)

lemma upsert_state:
  assumes "outcome (upsert w n recs r) = Normal" and "state r n = Some ix"
  shows "state (upsert w n recs r) = (state r)(n \<mapsto> ix\<lparr>vectors := vectors ix @ recs\<rparr>)"
  using assms
  by (simp add: upsert_def Let_def outcome_ext split: option.splits outcome.splits)

lemma setup_index_state:
  assumes "outcome (setup_index w k n d cl rg r) = Normal"
  shows "state (setup_index w k n d cl rg r) =
           (state r)(n \<mapsto> \<lparr>dimension = d, metric = ''cosine'', cloud = cl, region = rg,
                            vectors = []\<rparr>)"
proof -
  note a = assms [unfolded setup_index_def]
  note b = steps_Normal [OF a]
  note c = steps_Normal [OF b(4)]
  note d = steps_Normal [OF c(4)]
  note e = steps_Normal [OF d(4)]
  note f = steps_Normal [OF e(4)]
  note g = steps_Normal [OF f(4)]
  note h = steps_Normal [OF g(4)]
  note i = steps_Normal [OF h(4)]
  have "state (setup_index w k n d cl rg r) = state (steps [] (log INFO ''Pinecone index created successfully.''
      (get_index w n (create_index w n d cl rg (log INFO (''Creating new Pinecone index '' @ [CHR 0x27] @ n @ [CHR 0x27] @ '' with ''
                  @ str_of_int d @ '' dimensions...'') (delete_if_exists w n (ext w ListIndexes (ext w (PineconeClient k)
         (log INFO ''Initializing Pinecone client...'' r)))))))))"
    unfolding setup_index_def
    by (simp only: b(3) c(3) d(3) e(3) f(3) g(3) h(3) i(3))
  then show ?thesis
    using create_index_state [OF g(2)] delete_if_exists_state [OF e(2)]
    by simp
qed

lemma from_documents_state:
  assumes "outcome (from_documents w n model d f r) = Normal" and "state r n = Some ix"
  shows "state (from_documents w n model d f r) =
           (state r)(n \<mapsto> ix\<lparr>vectors := vectors ix @ records_of w model d f\<rparr>)"
proof -
  note a = assms(1) [unfolded from_documents_def]
  note b = steps_Normal [OF a]
  note c = steps_Normal [OF b(4)]
  have "state (from_documents w n model d f r) =
          state (upsert w n (records_of w model d f) (ext w (EmbedChunks model d (chunks_of w f)) r))"
    unfolding from_documents_def by (simp only: b(3) c(3)) simp
  then show ?thesis
    using upsert_state [OF c(2), of ix] assms(2) by simp
qed

lemma ingest_state:
  assumes "outcome (ingest w n k ok cl rg model d f r) = Normal"
  shows "state (ingest w n k ok cl rg model d f r) =
           (state r)(n \<mapsto> \<lparr>dimension = d, metric = ''cosine'', cloud = cl, region = rg,
                            vectors = records_of w model d f\<rparr>)"
proof -
  note a = assms [unfolded ingest_def]
  note s1 = steps_Normal [OF a]
  note s2 = steps_Normal [OF s1(4)]
  note s3 = steps_Normal [OF s2(4)]
  note s4 = steps_Normal [OF s3(4)]
  note s5 = steps_Normal [OF s4(4)]
  note s6 = steps_Normal [OF s5(4)]
  note s7 = steps_Normal [OF s6(4)]
  note s8 = steps_Normal [OF s7(4)]
  note s9 = steps_Normal [OF s8(4)]
  note s10 = steps_Normal [OF s9(4)]
  note s11 = steps_Normal [OF s10(4)]
  note s12 = steps_Normal [OF s11(4)]
  define r4 where "r4 = setup_index w k n d cl rg (load_documents w f (check_input_file w f
      (log INFO (''Configuration loaded. Using Pinecone index: '' @ [CHR 0x27] @ n @ [CHR 0x27]) r)))"
  define r9 where "r9 = log INFO ''Creating VectorStoreIndex and ingesting documents into Pinecone...''
      (ext w StorageContextNew (ext w PineconeVectorStoreNew (ext w (SentenceSplitterNew 256 20)
        (ext w (OpenAIEmbeddingNew model d ok) r4))))"
  have st4: "state r4 = (state r)(n \<mapsto> \<lparr>dimension = d, metric = ''cosine'', cloud = cl,
                 region = rg, vectors = []\<rparr>)"
    unfolding r4_def using setup_index_state [OF s4(2)] by simp
  have st9: "state r9 = state r4"
    by (simp add: r9_def)
  have o10: "outcome (from_documents w n model d f r9) = Normal"
    using s10(2) by (simp only: r9_def r4_def)
  have "state (ingest w n k ok cl rg model d f r) = state (from_documents w n model d f r9)"
    unfolding ingest_def r9_def r4_def
    by (simp only: s1(3) s2(3) s3(3) s4(3) s5(3) s6(3) s7(3) s8(3) s9(3) s10(3) s11(3) s12(3))
       simp
  then show ?thesis
    using from_documents_state [OF o10, of "\<lparr>dimension = d, metric = ''cosine'', cloud = cl,
                 region = rg, vectors = []\<rparr>"] st4 st9
    by simp
qed

lemma main_state:
  assumes "outcome (main w env arg pc) = Normal"
  shows "truthy (env ''PINECONE_INDEX_NAME'')"
    and "state (main w env arg pc) =
           pc(the (env ''PINECONE_INDEX_NAME'') \<mapsto>
              \<lparr>dimension = fst (ingest_embedding_dim w env), metric = ''cosine'',
               cloud = env ''PINECONE_CLOUD'', region = env ''PINECONE_REGION'',
               vectors = records_of w (get_model env) (fst (ingest_embedding_dim w env))
                           (case arg of None \<Rightarrow> default_input_file | Some f \<Rightarrow> f)\<rparr>)"
proof -
  have t: "truthy (env ''PINECONE_INDEX_NAME'') \<and> truthy (env ''PINECONE_API_KEY'')
           \<and> truthy (env ''OPENAI_API_KEY'')"
    using assms by (rule contrapos_pp) (simp add: main_def Let_def)
  then show "truthy (env ''PINECONE_INDEX_NAME'')" by simp
  define r0 :: "pinecone run" where
    "r0 = \<lparr>outcome = Normal, trace = snd (ingest_embedding_dim w env), state = pc\<rparr>"
  have eq: "main w env arg pc =
         ingest w (the (env ''PINECONE_INDEX_NAME'')) (the (env ''PINECONE_API_KEY''))
           (the (env ''OPENAI_API_KEY'')) (env ''PINECONE_CLOUD'') (env ''PINECONE_REGION'')
           (get_model env) (fst (ingest_embedding_dim w env))
           (case arg of None \<Rightarrow> default_input_file | Some f \<Rightarrow> f) r0"
    using t by (simp add: main_def Let_def r0_def)
  show "state (main w env arg pc) =
           pc(the (env ''PINECONE_INDEX_NAME'') \<mapsto>
              \<lparr>dimension = fst (ingest_embedding_dim w env), metric = ''cosine'',
               cloud = env ''PINECONE_CLOUD'', region = env ''PINECONE_REGION'',
               vectors = records_of w (get_model env) (fst (ingest_embedding_dim w env))
                           (case arg of None \<Rightarrow> default_input_file | Some f \<Rightarrow> f)\<rparr>)"
    using ingest_state [OF assms [unfolded eq]] by (simp add: eq r0_def)
qed

text \<open>
  C6. A run of the ingestion that completes leaves under the configured name an index
  with the configured dimension whose records are exactly the chunks of the input,
  whatever the service held before; a second completed run with the same input leaves the
  service in the same state, with the same number of chunks and the same dimension.
\<close>

theorem ingestion_idempotent:
  assumes "outcome (main w env arg pc) = Normal"
    and "outcome (main w env arg (state (main w env arg pc))) = Normal"
  shows "state (main w env arg (state (main w env arg pc))) = state (main w env arg pc)
         \<and> state (main w env arg pc) (the (env ''PINECONE_INDEX_NAME'')) =
             Some \<lparr>dimension = fst (ingest_embedding_dim w env), metric = ''cosine'',
                   cloud = env ''PINECONE_CLOUD'', region = env ''PINECONE_REGION'',
                   vectors = records_of w (get_model env) (fst (ingest_embedding_dim w env))
                               (case arg of None \<Rightarrow> default_input_file | Some f \<Rightarrow> f)\<rparr>
         \<and> map_option (\<lambda>ix. length (vectors ix))
              (state (main w env arg pc) (the (env ''PINECONE_INDEX_NAME''))) =
             Some (length (chunks_of w (case arg of None \<Rightarrow> default_input_file | Some f \<Rightarrow> f)))"
  using main_state(2) [OF assms(1)] main_state(2) [OF assms(2)]
  by (simp add: records_of_def)

lemma test_run_succeeds:
  "outcome (main test_world test_env (Some ''notes.txt'') pc) = Normal"
proof -
  have f: "\<And>c. fault test_world c = test_fault c" by (simp add: test_world_def)
  have p: "path_exists test_world ''notes.txt''" by (simp add: test_world_def)
  show ?thesis
    by (cases "pc ''paul-allen''")
       (simp_all add: main_def Let_def test_dim ingest_def check_input_file_def
          load_documents_def setup_index_def delete_if_exists_def delete_index_def
          create_index_def get_index_def from_documents_def upsert_def outcome_ext f p
          test_fault_def test_env_def truthy_def get_model_def)
qed

text \<open>
  C6 at a service that already holds an index of the configured name, with two records
  and another dimension.
\<close>

theorem ingestion_idempotent_witness:
  "outcome (main test_world test_env (Some ''notes.txt'') [''paul-allen'' \<mapsto> old_index]) = Normal
   \<and> state (main test_world test_env (Some ''notes.txt'')
              (state (main test_world test_env (Some ''notes.txt'')
                        [''paul-allen'' \<mapsto> old_index]))) ''paul-allen''
      = Some \<lparr>dimension = 8, metric = ''cosine'', cloud = Some ''aws'',
              region = Some ''us-east-1'',
              vectors = [(''Paul Allen co-founded Microsoft.'', [8, 32])]\<rparr>
   \<and> state (main test_world test_env (Some ''notes.txt'') [''paul-allen'' \<mapsto> old_index])
        ''paul-allen''
      = Some \<lparr>dimension = 8, metric = ''cosine'', cloud = Some ''aws'',
              region = Some ''us-east-1'',
              vectors = [(''Paul Allen co-founded Microsoft.'', [8, 32])]\<rparr>"
proof -
  have recs: "records_of test_world (get_model test_env) 8 ''notes.txt''
               = [(''Paul Allen co-founded Microsoft.'', [8, 32])]"
    by (simp add: records_of_def chunks_of_def test_world_def)
  have e: "test_env ''PINECONE_INDEX_NAME'' = Some ''paul-allen''"
     "test_env ''PINECONE_CLOUD'' = Some ''aws''"
     "test_env ''PINECONE_REGION'' = Some ''us-east-1''"
    by (simp_all add: test_env_def)
  show ?thesis
    using ingestion_idempotent [OF test_run_succeeds test_run_succeeds,
        of "[''paul-allen'' \<mapsto> old_index]"]
    by (simp add: test_run_succeeds test_dim recs e)
qed

subsection \<open>The events of a run\<close>












section \<open>The chat application\<close>

subsection \<open>Module initialisation\<close>



subsection \<open>The start handler\<close>



lemma on_chat_start_eq:
  "on_chat_start w g env s =
     setup_agent w g env
       \<lparr>outcome = Normal,
        trace = [Send header_message, Send image_message, Send welcome_message],
        state = s\<lparr>author_name := Some the_author\<rparr>\<rparr>"
proof -
  define r3 :: "session run" where "r3 =  \<lparr>outcome = Normal,
        trace = [Send header_message, Send image_message, Send welcome_message],
        state = s\<lparr>author_name := Some the_author\<rparr>\<rparr>"
  define f where "f = setup_agent w g env"
  have "on_chat_start w g env s = f r3"
    by (simp add: on_chat_start_def send_def r3_def f_def)
  then show ?thesis
    by (simp add: f_def r3_def)
qed

lemma connect_no_exit:
  assumes "\<forall>n. outcome r \<noteq> Exit n"
  shows "\<forall>n. outcome (connect w g env r) \<noteq> Exit n"
proof (cases "\<not> truthy (env ''PINECONE_API_KEY'') \<or> \<not> truthy (env ''PINECONE_REGION'')")
  case True
  then show ?thesis by (simp add: connect_def Let_def)
next
  case False
  then show ?thesis
    unfolding connect_def Let_def
    by (simp only: if_False) (rule steps_outcome, use assms in \<open>auto simp: ext_no_exit\<close>)
qed

lemma setup_agent_returns:
  assumes "outcome r = Normal"
  shows "outcome (setup_agent w g env r) = Normal"
proof -
  define r' where "r' = steps [log INFO ''Connecting to Pinecone and setting up the agent...'',
                    connect w g env] r"
  have ne: "\<forall>n. outcome r' \<noteq> Exit n"
    unfolding r'_def using assms connect_no_exit by (intro steps_outcome) auto
  have eq: "setup_agent w g env r =
     (case outcome r' of
           Raised e \<Rightarrow>
             steps
               [log ERROR (''Error during chat start: '' @ str_of_exn e),
                send (plain (''Sorry, an error occurred during setup: '' @ str_of_exn e))]
               (r'\<lparr>outcome := Normal\<rparr>)
         | _ \<Rightarrow> r')"
    by (simp only: setup_agent_def Let_def r'_def)
  show ?thesis
    using ne by (cases "outcome r'") (simp_all add: eq)
qed

lemma on_chat_start_returns: "outcome (on_chat_start w g env s) = Normal"
  by (simp add: on_chat_start_eq setup_agent_returns)



subsection \<open>The message handler\<close>

lemma not_allowed_iff: "not_allowed n \<longleftrightarrow> n \<notin> Some ` set allowed_route_names"
  by (cases n) (auto simp: not_allowed_def)

lemma stream_loop_eq:
  "stream_loop toks acc r = (acc @ concat toks, r\<lparr>trace := trace r @ map StreamToken toks\<rparr>)"
  by (induction toks arbitrary: acc r) simp_all

lemma display_append: "display (es @ es') ui = display es' (display es ui)"
  by (induction es ui rule: display.induct) simp_all

lemma display_tokens:
  "display (map StreamToken toks) (ui @ [c]) = ui @ [c @ concat toks]"
  by (induction toks arbitrary: c) simp_all

text \<open>
  C4. When the router is bound and returns a classification that is not one of the four
  allowed route names (among them no match at all), the handler sends the fixed refusal,
  makes no other call than the classification, so the agent is not invoked, and returns
  with the session unchanged.
\<close>

theorem disallowed_route_refused:
  assumes "g_router_layer g"
    and "fault w (RouterClassify text) = None"
    and "classify w text \<notin> Some ` set allowed_route_names"
  shows "on_message w g text s =
           \<lparr>outcome = Normal,
            trace = [Call (RouterClassify text), Send (plain refusal_message)],
            state = s\<rparr>
         \<and> sends (trace (on_message w g text s)) = [plain refusal_message]
         \<and> calls (trace (on_message w g text s)) = [RouterClassify text]"
  using assms
  by (simp add: on_message_def Let_def ext_def send_def not_allowed_iff)

text \<open>
  C4 at a message the router does not match.
\<close>

theorem disallowed_route_refused_witness:
  "g_router_layer test_globals
   \<and> classify test_world ''what is the weather in Paris?'' = None
   \<and> on_message test_world test_globals ''what is the weather in Paris?''
        \<lparr>author_name = Some the_author, agent = Some the_agent\<rparr> =
      \<lparr>outcome = Normal,
       trace = [Call (RouterClassify ''what is the weather in Paris?''),
                Send (plain refusal_message)],
       state = \<lparr>author_name = Some the_author, agent = Some the_agent\<rparr>\<rparr>"
proof -
  have a: "g_router_layer test_globals" by (simp add: test_globals_def)
  have b: "fault test_world (RouterClassify ''what is the weather in Paris?'') = None"
    by (simp add: test_world_def test_fault_def)
  have c: "classify test_world ''what is the weather in Paris?'' = None"
    by (simp add: test_world_def test_classify_def)
  have d: "classify test_world ''what is the weather in Paris?'' \<notin> Some ` set allowed_route_names"
    by (simp add: c)
  show ?thesis
    using a c disallowed_route_refused [OF a b d] by simp
qed

text \<open>
  C3 as stated fails: with the agent unset, a message the router does not match gets the
  refusal, not the "agent not available" notice.
\<close>

theorem agent_unset_every_message_counterexample:
  "agent \<lparr>author_name = Some the_author, agent = None\<rparr> = None
   \<and> sends (trace (on_message test_world test_globals ''what is the weather in Paris?''
                     \<lparr>author_name = Some the_author, agent = None\<rparr>))
       = [plain refusal_message]
   \<and> plain refusal_message \<noteq> plain unavailable_message"
  by (simp add: on_message_def Let_def ext_def send_def not_allowed_def test_globals_def
      test_world_def test_fault_def test_classify_def plain_def refusal_message_def
      unavailable_message_def)

text \<open>
  C3, as amended. With the agent unset, the router bound and the classification returned,
  every message gets exactly one fixed reply and the handler returns with the session
  unchanged and the agent not invoked: the reply is the "agent not available" notice when
  the message is classified into one of the four allowed routes, and the refusal
  otherwise, because the route check comes before the agent check.
\<close>

theorem agent_unset_reply:
  assumes "agent s = None"
    and "g_router_layer g"
    and "fault w (RouterClassify text) = None"
  shows "on_message w g text s =
           \<lparr>outcome = Normal,
            trace = [Call (RouterClassify text),
                     Send (plain (if classify w text \<in> Some ` set allowed_route_names
                                  then unavailable_message else refusal_message))],
            state = s\<rparr>"
  using assms
  by (simp add: on_message_def Let_def ext_def send_def not_allowed_iff)

text \<open>
  C3, as amended, at a greeting.
\<close>

theorem agent_unset_reply_witness:
  "on_message test_world test_globals ''hello'' \<lparr>author_name = Some the_author, agent = None\<rparr> =
     \<lparr>outcome = Normal,
      trace = [Call (RouterClassify ''hello''), Send (plain unavailable_message)],
      state = \<lparr>author_name = Some the_author, agent = None\<rparr>\<rparr>"
proof -
  have a: "agent \<lparr>author_name = Some the_author, agent = None\<rparr> = None" by simp
  have b: "g_router_layer test_globals" by (simp add: test_globals_def)
  have c: "fault test_world (RouterClassify ''hello'') = None"
    by (simp add: test_world_def test_fault_def)
  have d: "classify test_world ''hello'' \<in> Some ` set allowed_route_names"
    by (simp add: test_world_def test_classify_def allowed_route_names_def)
  show ?thesis
    using agent_unset_reply [OF a b c] d by simp
qed

text \<open>
  C5. For an allowed query whose stream ends after finitely many fragments, with the
  agent set, the handler sends an empty message, streams each fragment in order and
  updates the message with the concatenation of the fragments; that is the content the
  user interface shows for the message in the end.
\<close>

theorem streamed_content_is_concat:
  assumes "g_router_layer g"
    and "fault w (RouterClassify text) = None"
    and "classify w text \<in> Some ` set allowed_route_names"
    and "agent s = Some a"
    and "fault w (StreamChat text) = None"
    and "response_gen w text = (tokens, None)"
  shows "on_message w g text s =
           \<lparr>outcome = Normal,
            trace = [Call (RouterClassify text), Call (StreamChat text), Send (plain [])]
                    @ map StreamToken tokens @ [Update (concat tokens)],
            state = s\<rparr>
         \<and> display (trace (on_message w g text s)) ui = ui @ [concat tokens]"
proof -
  have run: "on_message w g text s =
           \<lparr>outcome = Normal,
            trace = [Call (RouterClassify text), Call (StreamChat text), Send (plain [])]
                    @ map StreamToken tokens @ [Update (concat tokens)],
            state = s\<rparr>"
    using assms
    by (simp add: on_message_def respond_def Let_def ext_def send_def not_allowed_iff
        stream_loop_eq)
  have "display ([Send (plain [])] @ map StreamToken tokens @ [Update (concat tokens)]) ui
        = ui @ [concat tokens]"
    by (simp add: display_append display_tokens plain_def)
  then show ?thesis
    by (simp add: run)
qed

text \<open>
  C5 at a query answered in three fragments.
\<close>

theorem streamed_content_is_concat_witness:
  "on_message test_world test_globals ''who is paul allen?''
      \<lparr>author_name = Some the_author, agent = Some the_agent\<rparr> =
     \<lparr>outcome = Normal,
      trace = [Call (RouterClassify ''who is paul allen?''),
               Call (StreamChat ''who is paul allen?''), Send (plain []),
               StreamToken ''Paul Allen '', StreamToken ''co-founded '',
               StreamToken ''Microsoft.'', Update ''Paul Allen co-founded Microsoft.''],
      state = \<lparr>author_name = Some the_author, agent = Some the_agent\<rparr>\<rparr>
   \<and> display (trace (on_message test_world test_globals ''who is paul allen?''
                       \<lparr>author_name = Some the_author, agent = Some the_agent\<rparr>)) []
       = [''Paul Allen co-founded Microsoft.'']"
proof -
  have a: "g_router_layer test_globals" by (simp add: test_globals_def)
  have b: "fault test_world (RouterClassify ''who is paul allen?'') = None"
    by (simp add: test_world_def test_fault_def)
  have c: "classify test_world ''who is paul allen?'' \<in> Some ` set allowed_route_names"
    by (simp add: test_world_def test_classify_def allowed_route_names_def)
  have d: "agent \<lparr>author_name = Some the_author, agent = Some the_agent\<rparr> = Some the_agent"
    by simp
  have e: "fault test_world (StreamChat ''who is paul allen?'') = None"
    by (simp add: test_world_def test_fault_def)
  have f: "response_gen test_world ''who is paul allen?''
            = ([''Paul Allen '', ''co-founded '', ''Microsoft.''], None)"
    by (simp add: test_world_def test_response_gen_def)
  show ?thesis
    using streamed_content_is_concat [OF a b c d e f, of "[]"] by simp
qed

text \<open>
  C2. The start handler catches every exception of the agent setup, but the message
  handler has no handler of its own: when the response generator raises after its first
  fragment, the exception leaves \<open>on_message\<close>, and no apology has been sent.
\<close>

theorem stream_error_escapes:
  "on_message test_world test_globals ''did he write a book?''
      \<lparr>author_name = Some the_author, agent = Some the_agent\<rparr> =
     \<lparr>outcome = Raised (ExternalError ''Connection error.''),
      trace = [Call (RouterClassify ''did he write a book?''),
               Call (StreamChat ''did he write a book?''), Send (plain []),
               StreamToken ''Yes, ''],
      state = \<lparr>author_name = Some the_author, agent = Some the_agent\<rparr>\<rparr>"
  by (simp add: on_message_def respond_def Let_def ext_def send_def not_allowed_def
      test_globals_def test_world_def test_fault_def test_classify_def test_response_gen_def
      allowed_route_names_def)

subsection \<open>A whole session\<close>





section \<open>Configuration from the environment\<close>







end
